theory Spec2Isabelle
  imports Complex_Main "HOL-Library.Word" "HOL-Library.Monad_Syntax"
begin

unbundle bit_operations_syntax

section \<open>The example \<^verbatim>\<open>lambda_templated_invoke_big_capture.cpp\<close>\<close>

text \<open>
  The program under study:
  \<^verbatim>\<open>
  template <typename Func> float invoke(Func &&func) { return func(); }

  [[clang::realtime]] float process() {
    auto data = std::array<float, 8>{};
    return invoke([data]() { return data[3]; });
  }

  int main() {
    std::cout << "I should pass!\n";
    return process();
  }
  \<close>
  A computation is a function from the state it runs in to \<open>Some (result, new state)\<close>,
  or to \<open>None\<close> where the C++ program would have undefined behaviour (an array subscript
  out of range, a float that does not fit the \<open>int\<close> it is converted to).
\<close>

subsection \<open>Values of type \<^verbatim>\<open>float\<close>\<close>

text \<open>
  A \<^verbatim>\<open>float\<close> is its IEEE-754 binary32 bit pattern: bit 31 is the sign, bits 30..23 the
  biased exponent, bits 22..0 the fraction. The program does no floating-point arithmetic:
  it creates zeros, copies floats and converts one float to \<^verbatim>\<open>int\<close>.
\<close>

type_synonym float = "32 word"

definition float_sign :: "float \<Rightarrow> bool" where
  "float_sign f = bit f 31"

definition float_exponent :: "float \<Rightarrow> nat" where
  "float_exponent f = unat (drop_bit 23 f AND 0xFF)"

definition float_fraction :: "float \<Rightarrow> nat" where
  "float_fraction f = unat (f AND 0x7FFFFF)"

text \<open>The real number a finite float denotes; infinities and NaNs denote none.\<close>

definition float_value :: "float \<Rightarrow> real option" where
  "float_value f =
     (let e = float_exponent f; m = float_fraction f
      in if e = 255 then None
         else
           let x = (if e = 0 then real m / 2 ^ 149
                    else real (2 ^ 23 + m) * 2 ^ e / 2 ^ 150)
           in Some (if float_sign f then - x else x))"

text \<open>
  The floating-integral conversion of \<^verbatim>\<open>return process();\<close> in \<^verbatim>\<open>int main()\<close>: the
  fractional part is discarded (truncation towards zero), and the behaviour is undefined
  when the truncated value is not a 32-bit \<^verbatim>\<open>int\<close>.
\<close>

definition float_to_int :: "float \<Rightarrow> int option" where
  "float_to_int f =
     (let e = float_exponent f; m = float_fraction f
      in if e = 255 then None
         else
           let mag = (if e = 0 then 0
                      else if e < 150 then (2 ^ 23 + m) div 2 ^ (150 - e)
                      else (2 ^ 23 + m) * 2 ^ (e - 150));
               v = (if float_sign f then - int mag else int mag)
           in if - (2 ^ 31) \<le> v \<and> v \<le> 2 ^ 31 - 1 then Some v else None)"

subsection \<open>Values of type \<^verbatim>\<open>double\<close> and their conversion to \<^verbatim>\<open>float\<close>\<close>

text \<open>
  A \<^verbatim>\<open>double\<close> is its IEEE-754 binary64 bit pattern: bit 63 is the sign, bits 62..52 the
  biased exponent, bits 51..0 the fraction.
\<close>

type_synonym double = "64 word"

definition double_exponent :: "double \<Rightarrow> nat" where
  "double_exponent d = unat (drop_bit 52 d AND 0x7FF)"

definition double_fraction :: "double \<Rightarrow> nat" where
  "double_fraction d = unat (d AND 0xFFFFFFFFFFFFF)"

text \<open>The real number a finite double denotes; infinities and NaNs denote none.\<close>

definition double_value :: "double \<Rightarrow> real option" where
  "double_value d =
     (let e = double_exponent d; m = double_fraction d
      in if e = 2047 then None
         else
           let x = (if e = 0 then real m / 2 ^ 1074
                    else real (2 ^ 52 + m) * 2 ^ e / 2 ^ 1075)
           in Some (if bit d 63 then - x else x))"

text \<open>
  The floating-point conversion from \<^verbatim>\<open>double\<close> to \<^verbatim>\<open>float\<close>. A value that is a float is
  kept; between two neighbouring floats the choice is the implementation's, here the
  nearer one and on a tie the one with an even significand (the default IEEE-754 rounding),
  so that a magnitude from \<open>2 ^ 128 - 2 ^ 103\<close> on becomes an infinity. With \<open>k\<close> the
  rounded significand, which for a normal result includes the leading 1, and \<open>q\<close> one less
  than the exponent field of a normal result (0 for a subnormal one), the float's bits
  below the sign are \<open>q * 2 ^ 23 + k\<close>. A NaN stays a NaN, made quiet, with the upper 23 bits of
  its fraction.
\<close>

definition double_to_float :: "double \<Rightarrow> float" where
  "double_to_float d =
     (let s = (if bit d 63 then 0x80000000 else 0);
          e = double_exponent d; m = double_fraction d
      in if e = 2047 then
           (if m = 0 then s OR 0x7F800000
            else s OR 0x7FC00000 OR word_of_nat (m div 2 ^ 29))
         else
           let sig = (if e = 0 then m else 2 ^ 52 + m);
               shift = (if e = 0 then 925 else if e < 897 then 926 - e else 29);
               q = (if e < 897 then 0 else e - 897);
               k0 = sig div 2 ^ shift;
               rest = sig mod 2 ^ shift;
               half = 2 ^ (shift - 1);
               k = (if half < rest \<or> (rest = half \<and> odd k0) then k0 + 1 else k0)
           in s OR word_of_nat (min (q * 2 ^ 23 + k) 0x7F800000))"

subsection \<open>Arrays, automatic storage and standard output\<close>

text \<open>
  A \<^verbatim>\<open>std::array<float, 8>\<close> is a list of floats. \<^verbatim>\<open>operator[]\<close> does not check its
  index: out of range it is undefined behaviour, here \<open>None\<close>.
\<close>

definition array_subscript :: "float list \<Rightarrow> nat \<Rightarrow> float option" where
  "array_subscript xs i = (if i < length xs then Some (xs ! i) else None)"

text \<open>
  The state of the program: the characters inserted into \<^verbatim>\<open>std::cout\<close> so far, and the
  array objects with automatic storage duration that are alive, oldest first. An object's
  address is its position in that list; it stops existing when its scope is left.
\<close>

record world =
  stdout :: string
  stack :: "float list list"

type_synonym addr = nat

definition alloca :: "float list \<Rightarrow> world \<Rightarrow> addr \<times> world" where
  "alloca v w = (length (stack w), w\<lparr>stack := stack w @ [v]\<rparr>)"

definition load :: "addr \<Rightarrow> world \<Rightarrow> float list option" where
  "load a w = (if a < length (stack w) then Some (stack w ! a) else None)"

definition leave_scope :: "world \<Rightarrow> world" where
  "leave_scope w = w\<lparr>stack := butlast (stack w)\<rparr>"

definition cout_insert :: "string \<Rightarrow> world \<Rightarrow> world" where
  "cout_insert s w = w\<lparr>stdout := stdout w @ s\<rparr>"

subsection \<open>\<^verbatim>\<open>invoke\<close>\<close>

text \<open>
  \<^verbatim>\<open>template <typename Func> float invoke(Func &&func) { return func(); }\<close>

  The callable is taken by reference, so a call of it may change the callable object as
  well as anything else it can reach: a zero-argument callable is a computation over a
  state \<open>'s\<close> that holds all of that. The template takes a callable of any type; the
  value of type \<open>'r\<close> that its call returns is converted to \<^verbatim>\<open>float\<close> by the \<^verbatim>\<open>return\<close>
  statement, with the conversion \<open>conv\<close> that C++ gives the type \<open>'r\<close>.
\<close>

definition invoke_conv ::
  "('r \<Rightarrow> float) \<Rightarrow> ('s \<Rightarrow> ('r \<times> 's) option) \<Rightarrow> 's \<Rightarrow> (float \<times> 's) option" where
  "invoke_conv conv func s = do { (r, s') \<leftarrow> func s; Some (conv r, s') }"

text \<open>
  The instance for a callable that returns \<^verbatim>\<open>float\<close>, as the closure of \<^verbatim>\<open>process\<close> does:
  the value is returned as it is.
\<close>

definition invoke :: "('s \<Rightarrow> (float \<times> 's) option) \<Rightarrow> 's \<Rightarrow> (float \<times> 's) option" where
  "invoke func s = invoke_conv (\<lambda>r. r) func s"

text \<open>The instance for a callable that returns \<^verbatim>\<open>double\<close>.\<close>

definition invoke_double :: "('s \<Rightarrow> (double \<times> 's) option) \<Rightarrow> 's \<Rightarrow> (float \<times> 's) option" where
  "invoke_double func s = invoke_conv double_to_float func s"

subsection \<open>The closure of \<^verbatim>\<open>process\<close>\<close>

text \<open>
  The closure type of \<^verbatim>\<open>[data]() { return data[3]; }\<close> has one member, the copy of
  \<^verbatim>\<open>data\<close> made when the lambda expression is evaluated.
\<close>

record closure =
  data :: "float list"

text \<open>Evaluating the lambda expression copies the array object at the address of \<^verbatim>\<open>data\<close>.\<close>

definition lambda_expr :: "addr \<Rightarrow> world \<Rightarrow> closure option" where
  "lambda_expr a w = do { d \<leftarrow> load a w; Some \<lparr>data = d\<rparr> }"

text \<open>The call operator of the closure: \<^verbatim>\<open>return data[3];\<close> on the captured copy.\<close>

definition lambda_call :: "closure \<times> 'w \<Rightarrow> (float \<times> closure \<times> 'w) option" where
  "lambda_call = (\<lambda>(c, w). do { x \<leftarrow> array_subscript (data c) 3; Some (x, (c, w)) })"

subsection \<open>\<^verbatim>\<open>process\<close> and \<^verbatim>\<open>main\<close>\<close>

definition process :: "world \<Rightarrow> (float \<times> world) option" where
  "process w = do {
     let (a, w1) = alloca (replicate 8 0) w;
     c \<leftarrow> lambda_expr a w1;
     (r, (c', w2)) \<leftarrow> invoke lambda_call (c, w1);
     Some (r, leave_scope w2)
   }"

text \<open>
  \<^verbatim>\<open>main\<close> with the function it calls as a parameter: the line is inserted into standard
  output, then the callee is run, then its result is converted to \<^verbatim>\<open>int\<close>.
\<close>

definition main_with :: "(world \<Rightarrow> (float \<times> world) option) \<Rightarrow> world \<Rightarrow> (int \<times> world) option" where
  "main_with callee w = do {
     let w1 = cout_insert (''I should pass!'' @ [CHR 0x0A]) w;
     (r, w2) \<leftarrow> callee w1;
     i \<leftarrow> float_to_int r;
     Some (i, w2)
   }"

definition main :: "world \<Rightarrow> (int \<times> world) option" where
  "main w = main_with process w"

subsection \<open>Notions used to state the properties\<close>

text \<open>Rounding a real number towards zero.\<close>

definition trunc_toward_zero :: "real \<Rightarrow> int" where
  "trunc_toward_zero v = (if 0 \<le> v then \<lfloor>v\<rfloor> else \<lceil>v\<rceil>)"

text \<open>
  A probe to call in the place of \<open>process\<close>: it returns 1.0 when standard output holds
  exactly the text \<open>t\<close> at the moment it is called, and 0.0 otherwise.
\<close>

definition stdout_probe :: "string \<Rightarrow> world \<Rightarrow> (float \<times> world) option" where
  "stdout_probe t w = Some (if stdout w = t then 0x3F800000 else 0, w)"

text \<open>
  A counting callable: it wraps a callable and adds one to a counter, kept beside the
  callable's own state, each time it is called.
\<close>

definition counted :: "('s \<Rightarrow> (float \<times> 's) option) \<Rightarrow> nat \<times> 's \<Rightarrow> (float \<times> nat \<times> 's) option" where
  "counted func = (\<lambda>(n, s). do { (r, s') \<leftarrow> func s; Some (r, (Suc n, s')) })"

text \<open>Passing a callable to \<open>invoke\<close> \<open>n\<close> times in a row, collecting the results in order.\<close>

primrec invoke_times :: "nat \<Rightarrow> ('s \<Rightarrow> (float \<times> 's) option) \<Rightarrow> 's \<Rightarrow> (float list \<times> 's) option" where
  "invoke_times 0 func s = Some ([], s)"
| "invoke_times (Suc n) func s = do {
     (r, s') \<leftarrow> invoke func s;
     (rs, s'') \<leftarrow> invoke_times n func s';
     Some (r # rs, s'')
   }"

section \<open>Properties\<close>

subsection \<open>Auxiliary facts\<close>

lemma invoke_eq: "invoke func s = func s"
  by (cases "func s") (auto simp: invoke_def invoke_conv_def)

lemma lambda_call_eq:
  "3 < length (data c) \<Longrightarrow> lambda_call (c, s) = Some (data c ! 3, (c, s))"
  by (simp add: lambda_call_def array_subscript_def)

lemma alloca_eq: "alloca v w = (length (stack w), w\<lparr>stack := stack w @ [v]\<rparr>)"
  by (simp add: alloca_def)

lemma lambda_expr_alloca:
  "lambda_expr (length (stack w)) (w\<lparr>stack := stack w @ [v]\<rparr>) = Some \<lparr>data = v\<rparr>"
  by (simp add: lambda_expr_def load_def)

lemma leave_scope_alloca: "leave_scope (w\<lparr>stack := stack w @ [v]\<rparr>) = w"
  by (simp add: leave_scope_def)

lemma process_eq: "process w = Some (0, w)"
  by (simp add: process_def alloca_eq lambda_expr_alloca invoke_eq lambda_call_eq
      leave_scope_alloca)

lemma float_zero_fields:
  "float_exponent 0 = 0" "float_fraction 0 = 0" "\<not> float_sign 0"
  by (simp_all add: float_exponent_def float_fraction_def float_sign_def)

lemma float_value_zero: "float_value 0 = Some 0"
  by (simp add: float_value_def float_zero_fields)

lemma float_to_int_zero: "float_to_int 0 = Some 0"
  by (simp add: float_to_int_def float_zero_fields)

lemma main_eq:
  "main w = Some (0, w\<lparr>stdout := stdout w @ ''I should pass!'' @ [CHR 0x0A]\<rparr>)"
  by (simp add: main_def main_with_def cout_insert_def process_eq float_to_int_zero)

subsection \<open>The conversion to \<^verbatim>\<open>int\<close> truncates\<close>

lemma float_fraction_less: "float_fraction f < 2 ^ 23"
proof -
  have "f AND 0x7FFFFF \<le> 0x7FFFFF"
    by (rule word_and_le1)
  then have "unat (f AND 0x7FFFFF) \<le> unat (0x7FFFFF :: 32 word)"
    by (simp only: word_le_nat_alt)
  then show ?thesis
    by (simp add: float_fraction_def)
qed

lemma trunc_signed:
  "0 \<le> x \<Longrightarrow> trunc_toward_zero (if b then - x else x) = (if b then - \<lfloor>x\<rfloor> else \<lfloor>x\<rfloor>)"
  by (auto simp: trunc_toward_zero_def ceiling_minus)

lemma floor_small:
  assumes "m < 2 ^ j" and "j \<le> k"
  shows "\<lfloor>real m / 2 ^ k\<rfloor> = 0"
proof -
  from assms(1) have "real m < 2 ^ j"
    by (metis of_nat_less_iff of_nat_numeral of_nat_power)
  also have "\<dots> \<le> 2 ^ k"
    using assms(2) by (intro power_increasing) simp_all
  finally have "real m / 2 ^ k < 1"
    by simp
  moreover have "0 \<le> real m / 2 ^ k"
    by simp
  ultimately show ?thesis
    by (simp add: floor_eq_iff)
qed

lemma floor_shift_right:
  assumes "e < k"
  shows "\<lfloor>real n * 2 ^ e / 2 ^ k\<rfloor> = int (n div 2 ^ (k - e))"
proof -
  have "(2::real) ^ k = 2 ^ e * 2 ^ (k - e)"
    using assms by (simp flip: power_add)
  then have "real n * 2 ^ e / 2 ^ k = real n / real (2 ^ (k - e))"
    by simp
  then show ?thesis
    by (simp only: floor_divide_of_nat_eq)
qed

lemma floor_shift_left:
  assumes "\<not> e < k"
  shows "\<lfloor>real n * 2 ^ e / 2 ^ k\<rfloor> = int (n * 2 ^ (e - k))"
proof -
  have "(2::real) ^ e = 2 ^ (e - k) * 2 ^ k"
    using assms by (simp flip: power_add)
  then have "real n * 2 ^ e / 2 ^ k = real (n * 2 ^ (e - k))"
    by simp
  then show ?thesis
    by (simp only: floor_of_nat)
qed

text \<open>
  On every float, \<open>float_to_int\<close> is the truncation towards zero of the number the float
  denotes, defined exactly when that truncation is a 32-bit \<^verbatim>\<open>int\<close>.
\<close>

lemma float_to_int_trunc:
  "float_to_int f =
     (case float_value f of
        None \<Rightarrow> None
      | Some v \<Rightarrow>
          if - (2 ^ 31) \<le> trunc_toward_zero v \<and> trunc_toward_zero v \<le> 2 ^ 31 - 1
          then Some (trunc_toward_zero v) else None)"
proof (cases "float_exponent f = 255")
  case True
  then show ?thesis
    by (simp add: float_to_int_def float_value_def)
next
  case False
  define e where "e = float_exponent f"
  define m where "m = float_fraction f"
  define x where
    "x = (if e = 0 then real m / 2 ^ 149 else real (2 ^ 23 + m) * 2 ^ e / 2 ^ 150)"
  define mag where
    "mag = (if e = 0 then 0
            else if e < 150 then (2 ^ 23 + m) div 2 ^ (150 - e)
            else (2 ^ 23 + m) * 2 ^ (e - 150))"
  have m: "m < 2 ^ 23"
    unfolding m_def by (rule float_fraction_less)
  have nonneg: "0 \<le> x"
    unfolding x_def by simp
  have floor_x: "\<lfloor>x\<rfloor> = int mag"
    unfolding x_def mag_def
    using floor_small [OF m, of 149] floor_shift_right [of e 150 "2 ^ 23 + m"]
      floor_shift_left [of e 150 "2 ^ 23 + m"]
    by (simp only: if_distrib [of floor] if_distrib [of int] of_nat_0 split: if_splits) simp
  have v: "float_value f = Some (if float_sign f then - x else x)"
    using False unfolding float_value_def Let_def x_def e_def m_def
    by (simp only: if_False)
  have i: "float_to_int f =
      (let v = (if float_sign f then - int mag else int mag)
       in if - (2 ^ 31) \<le> v \<and> v \<le> 2 ^ 31 - 1 then Some v else None)"
    using False unfolding float_to_int_def Let_def mag_def e_def m_def
    by (simp only: if_False)
  show ?thesis
    unfolding v i using nonneg floor_x
    by (simp add: trunc_signed Let_def)
qed

subsection \<open>The conversion from \<^verbatim>\<open>double\<close> to \<^verbatim>\<open>float\<close>\<close>

lemma invoke_conv_eq:
  "invoke_conv conv func s = map_option (\<lambda>(r, s'). (conv r, s')) (func s)"
  by (cases "func s") (auto simp: invoke_conv_def)

text \<open>
  \<open>double_to_float\<close> on values that are floats, on values between two floats, on ties,
  at the limits of the normal and of the finite floats, on infinities and on NaNs.
\<close>

lemma double_to_float_examples:
  "double_to_float 0x3FF8000000000000 = 0x3FC00000"
  "double_to_float 0xC006000000000000 = 0xC0300000"
  "double_to_float 0x3FB999999999999A = 0x3DCCCCCD"
  "double_to_float 0x3FF0000010000000 = 0x3F800000"
  "double_to_float 0x3FF0000030000000 = 0x3F800002"
  "double_to_float 0x380FFFFFFFFFFFFF = 0x00800000"
  "double_to_float 0x380FFFFFBB1DD6A1 = 0x007FFFFF"
  "double_to_float 0x36A8000000000000 = 0x00000002"
  "double_to_float 0x3690000000000000 = 0x00000000"
  "double_to_float 0x8000000000000001 = 0x80000000"
  "double_to_float 0x47EFFFFFEFFFFFFF = 0x7F7FFFFF"
  "double_to_float 0x47EFFFFFF0000000 = 0x7F800000"
  "double_to_float 0xFFF0000000000000 = 0xFF800000"
  "double_to_float 0x7FF0000000000001 = 0x7FC00000"
  by (simp_all add: double_to_float_def double_exponent_def double_fraction_def
      drop_bit_eq_div)

text \<open>
  No float denotes one tenth: a finite float denotes a natural number divided by a power
  of two, up to its sign, and 5 divides no power of two. So the conversion of the double
  nearest to 0.1 changes the value whichever neighbouring float is chosen.
\<close>

lemma five_not_dvd_power_two: "\<not> 5 dvd (2::nat) ^ k"
proof -
  have "coprime (5::nat) 2"
    by (simp add: coprime_iff_gcd_eq_1 gcd_nat.simps)
  then have "coprime (5::nat) (2 ^ k)"
    by simp
  then show ?thesis
    using coprime_common_divisor_nat [of 5 "2 ^ k" 5] by auto
qed

lemma tenth_not_dyadic: "real n / 2 ^ k \<noteq> 1 / 10"
proof
  assume "real n / 2 ^ k = 1 / 10"
  then have "real (10 * n) = real (2 ^ k)"
    by (simp add: field_simps)
  then have "10 * n = 2 ^ k"
    by (simp only: of_nat_eq_iff)
  then have "5 * (2 * n) = 2 ^ k"
    by simp
  then have "5 dvd (2::nat) ^ k"
    by (metis dvd_triv_left)
  then show False
    by (simp add: five_not_dvd_power_two)
qed

lemma no_float_is_a_tenth: "float_value r \<noteq> Some (1 / 10)"
proof
  assume a: "float_value r = Some (1 / 10)"
  define e where "e = float_exponent r"
  define m where "m = float_fraction r"
  define x where
    "x = (if e = 0 then real m / 2 ^ 149 else real (2 ^ 23 + m) * 2 ^ e / 2 ^ 150)"
  have x: "x = real (if e = 0 then m else (2 ^ 23 + m) * 2 ^ e)
                 / 2 ^ (if e = 0 then 149 else 150)"
    unfolding x_def
    by (simp only: if_distrib [of real] of_nat_mult of_nat_power of_nat_numeral
        split: if_splits) simp
  have nonneg: "0 \<le> x"
    unfolding x_def by simp
  from a have "e \<noteq> 255"
    unfolding float_value_def Let_def e_def by (auto split: if_splits)
  with a have "(if float_sign r then - x else x) = 1 / 10"
    unfolding float_value_def Let_def x_def e_def m_def
    by (simp only: if_False option.inject)
  with nonneg have "x = 1 / 10"
    by (auto split: if_splits)
  with x show False
    using tenth_not_dyadic by metis
qed

subsection \<open>\<^verbatim>\<open>process\<close> returns 0.0\<close>

text \<open>
  C1. \<open>process\<close> takes no argument and, whatever the state it is called in, returns the
  float 0.0 (the all-zero bit pattern, which denotes the real number 0) and leaves the
  state as it found it; 0.0 is the element at index 3 of the zero-initialised buffer of
  8 elements that it builds.
\<close>

theorem process_returns_zero:
  "process w = Some (0, w) \<and> float_value 0 = Some 0 \<and>
   length (replicate 8 (0::float)) = 8 \<and> array_subscript (replicate 8 0) 3 = Some 0"
  by (simp add: process_eq float_value_zero array_subscript_def)

subsection \<open>\<^verbatim>\<open>invoke\<close> forwards one call\<close>

text \<open>
  C2, for callables that return \<^verbatim>\<open>float\<close>. For every zero-argument callable \<open>func\<close>
  whose call returns a \<^verbatim>\<open>float\<close>, and every float \<open>c\<close>: if the call of \<open>func\<close> returns
  \<open>c\<close>, then \<open>invoke func\<close> returns exactly \<open>c\<close>.
\<close>

theorem invoke_returns_result:
  "func s = Some (c, s') \<Longrightarrow> map_option fst (invoke func s) = Some c"
  by (simp add: invoke_eq)

theorem invoke_returns_result_witness:
  "(\<lambda>s::nat. Some (0x3FC00000::float, s)) 7 = Some (0x3FC00000, 7) \<and>
   map_option fst (invoke (\<lambda>s::nat. Some (0x3FC00000::float, s)) 7) = Some 0x3FC00000"
  using invoke_returns_result [of "\<lambda>s::nat. Some (0x3FC00000::float, s)" 7 "0x3FC00000" 7]
  by simp

text \<open>
  C2, as stated for every callable and every floating-point constant, fails at a
  callable that returns a \<^verbatim>\<open>double\<close>. The call of the callable below returns the double
  constant 0.1, the bit pattern \<open>0x3FB999999999999A\<close>; \<open>invoke\<close> returns the float
  \<open>0x3DCCCCCD\<close>, which denotes another number.
\<close>

theorem invoke_double_changes_result:
  "(\<lambda>s::nat. Some (0x3FB999999999999A::double, s)) 0 = Some (0x3FB999999999999A, 0) \<and>
   invoke_double (\<lambda>s::nat. Some (0x3FB999999999999A, s)) 0 = Some (0x3DCCCCCD, 0) \<and>
   double_value 0x3FB999999999999A = Some (3602879701896397 / 36028797018963968) \<and>
   float_value 0x3DCCCCCD = Some (13421773 / 134217728) \<and>
   float_value 0x3DCCCCCD \<noteq> double_value 0x3FB999999999999A"
  by (simp add: invoke_double_def invoke_conv_def double_to_float_def double_exponent_def
      double_fraction_def double_value_def float_value_def float_exponent_def
      float_fraction_def float_sign_def drop_bit_eq_div)

text \<open>
  C3. For every zero-argument callable \<open>func\<close>, one call of \<open>invoke func\<close> calls \<open>func\<close>
  exactly once and has finished doing so when it returns: a counter that \<open>func\<close> advances
  at each call stands one higher afterwards, the rest of the state is what that one call
  of \<open>func\<close> made of it, and \<open>invoke\<close> adds no effect of its own.
\<close>

theorem invoke_calls_once:
  "invoke (counted func) (n, s) = map_option (\<lambda>(r, s'). (r, (Suc n, s'))) (func s) \<and>
   invoke func s = func s"
  by (cases "func s") (auto simp: invoke_eq counted_def)

subsection \<open>\<^verbatim>\<open>main\<close>: output and exit status\<close>

text \<open>
  C4. A run of the program inserts exactly the line \<open>I should pass!\<close> and a newline into
  standard output, and \<open>main\<close> returns 0. The insertion comes before the result of the
  function that \<open>main\<close> calls is computed: whatever that function is, it is started in
  the state whose standard output already ends with the line, so that a probe called in
  the place of \<open>process\<close> finds the line written (\<open>main\<close> then returns 1) and does not
  find standard output as it was at the start (\<open>main\<close> then returns 0).
\<close>

theorem main_prints_line_then_returns_zero:
  "main w = Some (0, w\<lparr>stdout := stdout w @ ''I should pass!'' @ [CHR 0x0A]\<rparr>) \<and>
   main w = main_with process w \<and>
   main_with callee w =
     do { (r, w2) \<leftarrow> callee (w\<lparr>stdout := stdout w @ ''I should pass!'' @ [CHR 0x0A]\<rparr>);
          i \<leftarrow> float_to_int r;
          Some (i, w2) } \<and>
   main_with (stdout_probe (stdout w @ ''I should pass!'' @ [CHR 0x0A])) w =
     Some (1, w\<lparr>stdout := stdout w @ ''I should pass!'' @ [CHR 0x0A]\<rparr>) \<and>
   main_with (stdout_probe (stdout w)) w =
     Some (0, w\<lparr>stdout := stdout w @ ''I should pass!'' @ [CHR 0x0A]\<rparr>)"
proof -
  have one: "float_to_int 0x3F800000 = Some 1"
    by (simp add: float_to_int_def float_exponent_def float_fraction_def float_sign_def
        drop_bit_eq_div)
  show ?thesis
    by (simp add: main_def main_with_def cout_insert_def stdout_probe_def one
        float_to_int_zero process_eq)
qed

text \<open>
  C5. The value \<open>main\<close> returns is the truncation towards zero of the number denoted by
  the float that \<open>process\<close> returns, and that is 0.
\<close>

theorem main_returns_truncated_process_result:
  "\<exists>r w' v. process (cout_insert (''I should pass!'' @ [CHR 0x0A]) w) = Some (r, w') \<and>
             float_value r = Some v \<and>
             map_option fst (main w) = Some (trunc_toward_zero v) \<and>
             trunc_toward_zero v = 0"
proof -
  let ?w1 = "cout_insert (''I should pass!'' @ [CHR 0x0A]) w"
  have p: "process ?w1 = Some (0, ?w1)"
    by (rule process_eq)
  have v: "float_value (0::float) = Some 0"
    by (rule float_value_zero)
  have "float_to_int 0 = Some (trunc_toward_zero 0)"
    using float_to_int_trunc [of 0] by (simp add: v trunc_toward_zero_def)
  then have "map_option fst (main w) = Some (trunc_toward_zero 0)"
    by (simp add: main_def main_with_def process_eq)
  moreover have "trunc_toward_zero 0 = 0"
    by (simp add: trunc_toward_zero_def)
  ultimately show ?thesis
    using p v by blast
qed

subsection \<open>The buffer and the closure\<close>

text \<open>
  C6. The one subscript on the buffer, \<open>data[3]\<close> in the closure, is within the bounds of
  the 8 elements of the captured copy, and the copy itself reads a live object: no
  undefined behaviour is reached in \<open>process\<close>, nor in a call of the closure it builds.
\<close>

theorem buffer_access_in_range:
  "(case alloca (replicate 8 0) w of
      (a, w1) \<Rightarrow>
        \<exists>c. lambda_expr a w1 = Some c \<and> length (data c) = 8 \<and> 3 < length (data c) \<and>
            array_subscript (data c) 3 \<noteq> None \<and> invoke lambda_call (c, w1) \<noteq> None) \<and>
   process w \<noteq> None"
  by (simp add: alloca_eq lambda_expr_alloca array_subscript_def invoke_eq lambda_call_eq
      process_eq)

text \<open>
  C7. The closure holds its own copy of the buffer. Build it as \<open>process\<close> does, leave the
  scope of \<open>data\<close> (no object is left at its address), and invoke the closure: the result
  is 0.0. It still is after another array, of ones, has taken the address of \<open>data\<close>.
\<close>

theorem closure_copy_independent:
  "(case alloca (replicate 8 0) w of
      (a, w1) \<Rightarrow>
        \<exists>c. lambda_expr a w1 = Some c \<and>
            load a (leave_scope w1) = None \<and>
            invoke lambda_call (c, leave_scope w1) = Some (0, (c, leave_scope w1)) \<and>
            (case alloca (replicate 8 0x3F800000) (leave_scope w1) of
               (a', w2) \<Rightarrow>
                 a' = a \<and> load a w2 = Some (replicate 8 0x3F800000) \<and>
                 invoke lambda_call (c, w2) = Some (0, (c, w2))))"
  by (simp add: alloca_eq lambda_expr_alloca leave_scope_alloca load_def invoke_eq
      lambda_call_eq)

text \<open>
  C8. The program is deterministic. \<open>process\<close> has no argument and returns the same
  result in any two states; two runs of the program that start with the same standard
  output, whatever else differs in their states, end with the same exit status and the
  same standard output.
\<close>

theorem program_deterministic:
  "stdout w = stdout w' \<Longrightarrow>
   map_option fst (process w) = map_option fst (process w') \<and>
   map_option (\<lambda>(i, u). (i, stdout u)) (main w) =
     map_option (\<lambda>(i, u). (i, stdout u)) (main w')"
  by (simp add: process_eq main_eq)

theorem program_deterministic_witness:
  "stdout \<lparr>stdout = [], stack = []\<rparr> = stdout \<lparr>stdout = [], stack = [[1, 2, 3]]\<rparr> \<and>
   map_option fst (process \<lparr>stdout = [], stack = []\<rparr>) =
     map_option fst (process \<lparr>stdout = [], stack = [[1, 2, 3]]\<rparr>) \<and>
   map_option (\<lambda>(i, u). (i, stdout u)) (main \<lparr>stdout = [], stack = []\<rparr>) =
     map_option (\<lambda>(i, u). (i, stdout u)) (main \<lparr>stdout = [], stack = [[1, 2, 3]]\<rparr>)"
  using program_deterministic
    [of "\<lparr>stdout = [], stack = []\<rparr>" "\<lparr>stdout = [], stack = [[1, 2, 3]]\<rparr>"]
  by simp

text \<open>
  C9. The closure is pure and idempotent: invoked \<open>n\<close> times in a row, it returns the
  same value each time, the element at index 3 of its copy of the buffer, and the
  closure with its copy, like the rest of the state, is afterwards what it was before.
\<close>

theorem closure_pure_idempotent:
  "length (data c) = 8 \<Longrightarrow>
   invoke_times n lambda_call (c, w) = Some (replicate n (data c ! 3), (c, w))"
proof (induction n)
  case 0
  show ?case
    by simp
next
  case (Suc n)
  from Suc.prems have "invoke lambda_call (c, w) = Some (data c ! 3, (c, w))"
    by (simp add: invoke_eq lambda_call_eq)
  with Suc.IH [OF Suc.prems] show ?case
    by simp
qed

theorem closure_pure_idempotent_witness:
  "length (data \<lparr>data = replicate 8 0\<rparr>) = 8 \<and>
   invoke_times 3 lambda_call (\<lparr>data = replicate 8 0\<rparr>, \<lparr>stdout = [], stack = []\<rparr>) =
     Some ([0, 0, 0], (\<lparr>data = replicate 8 0\<rparr>, \<lparr>stdout = [], stack = []\<rparr>))"
  using closure_pure_idempotent
    [of "\<lparr>data = replicate 8 0\<rparr>" 3 "\<lparr>stdout = [], stack = []\<rparr>"]
  by (simp add: numeral_3_eq_3)

text \<open>
  C10. The result of invoking the closure depends on the element at index 3 of the
  captured buffer only: two closures whose buffers of 8 elements agree at index 3 return
  equal results, however the other seven elements and the rest of the state differ.
\<close>

theorem closure_result_depends_on_index_3_only:
  "length d1 = 8 \<Longrightarrow> length d2 = 8 \<Longrightarrow> d1 ! 3 = d2 ! 3 \<Longrightarrow>
   map_option fst (invoke lambda_call (\<lparr>data = d1\<rparr>, w)) =
     map_option fst (invoke lambda_call (\<lparr>data = d2\<rparr>, w'))"
  by (simp add: invoke_eq lambda_call_eq)

theorem closure_result_depends_on_index_3_only_witness:
  "length [1, 2, 3, 9, 5, 6, 7, 8 :: float] = 8 \<and>
   length [8, 7, 6, 9, 4, 3, 2, 1 :: float] = 8 \<and>
   [1, 2, 3, 9, 5, 6, 7, 8 :: float] ! 3 = [8, 7, 6, 9, 4, 3, 2, 1] ! 3 \<and>
   map_option fst (invoke lambda_call (\<lparr>data = [1, 2, 3, 9, 5, 6, 7, 8]\<rparr>, 0 :: nat)) =
     map_option fst (invoke lambda_call (\<lparr>data = [8, 7, 6, 9, 4, 3, 2, 1]\<rparr>, 1 :: nat))"
  using closure_result_depends_on_index_3_only
    [of "[1, 2, 3, 9, 5, 6, 7, 8]" "[8, 7, 6, 9, 4, 3, 2, 1]" "0 :: nat" "1 :: nat"]
  by simp

end
